theory Spec2Isabelle
  imports Complex_Main
begin

section \<open>Single-precision values\<close>

text \<open>
  The sketch computes with C++ \<^verbatim>\<open>float\<close>. A value is a finite real number, the negative
  zero, one of the two infinities, or a NaN; \<open>Fin 0\<close> is the positive zero. The special
  values follow IEEE 754 and Annex F of ISO C, because the sketch divides by a norm that
  can be zero and the sign of a zero decides what \<^verbatim>\<open>atan2f\<close> returns. On finite values
  the arithmetic below is exact: the rounding to 24 significant bits, overflow and
  underflow of binary32 are not part of this development.
\<close>

datatype fval = Fin real | MZero | PInf | MInf | NaN

fun val :: "fval \<Rightarrow> real" where
  "val (Fin r) = r"
| "val MZero = 0"
| "val PInf = 0"
| "val MInf = 0"
| "val NaN = 0"

fun signbit :: "fval \<Rightarrow> bool" where
  "signbit (Fin r) = (r < 0)"
| "signbit MZero = True"
| "signbit PInf = False"
| "signbit MInf = True"
| "signbit NaN = False"

fun is_finite :: "fval \<Rightarrow> bool" where
  "is_finite (Fin r) = True"
| "is_finite MZero = True"
| "is_finite PInf = False"
| "is_finite MInf = False"
| "is_finite NaN = False"

fun is_inf :: "fval \<Rightarrow> bool" where
  "is_inf (Fin r) = False"
| "is_inf MZero = False"
| "is_inf PInf = True"
| "is_inf MInf = True"
| "is_inf NaN = False"

fun is_nan :: "fval \<Rightarrow> bool" where
  "is_nan (Fin r) = False"
| "is_nan MZero = False"
| "is_nan PInf = False"
| "is_nan MInf = False"
| "is_nan NaN = True"

fun is_zero :: "fval \<Rightarrow> bool" where
  "is_zero (Fin r) = (r = 0)"
| "is_zero MZero = True"
| "is_zero PInf = False"
| "is_zero MInf = False"
| "is_zero NaN = False"

text \<open>The zero and the infinity of a given sign, and a finite result of a given exact
  value, whose sign matters only when it is zero.\<close>

definition zero_of :: "bool \<Rightarrow> fval" where
  "zero_of neg = (if neg then MZero else Fin 0)"

definition inf_of :: "bool \<Rightarrow> fval" where
  "inf_of neg = (if neg then MInf else PInf)"

definition fin_of :: "bool \<Rightarrow> real \<Rightarrow> fval" where
  "fin_of neg r = (if r = 0 then zero_of neg else Fin r)"

subsection \<open>Arithmetic and comparison (IEEE 754, round to nearest)\<close>

fun fneg :: "fval \<Rightarrow> fval" where
  "fneg (Fin r) = fin_of True (- r)"
| "fneg MZero = Fin 0"
| "fneg PInf = MInf"
| "fneg MInf = PInf"
| "fneg NaN = NaN"

text \<open>A sum that is exactly zero is the positive zero, unless both operands are the
  negative zero.\<close>

definition fadd :: "fval \<Rightarrow> fval \<Rightarrow> fval" where
  "fadd a b =
     (if is_nan a \<or> is_nan b then NaN
      else if is_inf a \<and> is_inf b then (if a = b then a else NaN)
      else if is_inf a then a
      else if is_inf b then b
      else fin_of (a = MZero \<and> b = MZero) (val a + val b))"

definition fsub :: "fval \<Rightarrow> fval \<Rightarrow> fval" where
  "fsub a b = fadd a (fneg b)"

text \<open>The sign of a product or quotient is the exclusive or of the operands' signs,
  also when the result is a zero or an infinity.\<close>

definition fmul :: "fval \<Rightarrow> fval \<Rightarrow> fval" where
  "fmul a b =
     (if is_nan a \<or> is_nan b then NaN
      else if (is_inf a \<and> is_zero b) \<or> (is_zero a \<and> is_inf b) then NaN
      else if is_inf a \<or> is_inf b then inf_of (signbit a \<noteq> signbit b)
      else fin_of (signbit a \<noteq> signbit b) (val a * val b))"

definition fdiv :: "fval \<Rightarrow> fval \<Rightarrow> fval" where
  "fdiv a b =
     (if is_nan a \<or> is_nan b then NaN
      else if (is_inf a \<and> is_inf b) \<or> (is_zero a \<and> is_zero b) then NaN
      else if is_inf a \<or> is_zero b then inf_of (signbit a \<noteq> signbit b)
      else if is_inf b then zero_of (signbit a \<noteq> signbit b)
      else fin_of (signbit a \<noteq> signbit b) (val a / val b))"

fun sqrtf :: "fval \<Rightarrow> fval" where
  "sqrtf (Fin r) = (if r < 0 then NaN else Fin (sqrt r))"
| "sqrtf MZero = MZero"
| "sqrtf PInf = PInf"
| "sqrtf MInf = NaN"
| "sqrtf NaN = NaN"

fun fabsf :: "fval \<Rightarrow> fval" where
  "fabsf (Fin r) = Fin \<bar>r\<bar>"
| "fabsf MZero = Fin 0"
| "fabsf PInf = PInf"
| "fabsf MInf = PInf"
| "fabsf NaN = NaN"

text \<open>Every comparison with a NaN is false; the two zeros compare equal.\<close>

definition fgt :: "fval \<Rightarrow> fval \<Rightarrow> bool" where
  "fgt a b =
     (if is_nan a \<or> is_nan b then False
      else if a = PInf then b \<noteq> PInf
      else if b = MInf then a \<noteq> MInf
      else if a = MInf \<or> b = PInf then False
      else val a > val b)"

definition flt :: "fval \<Rightarrow> fval \<Rightarrow> bool" where
  "flt a b = fgt b a"

definition fge :: "fval \<Rightarrow> fval \<Rightarrow> bool" where
  "fge a b = (if is_nan a \<or> is_nan b then False else \<not> fgt b a)"

subsection \<open>The C library functions the sketch calls\<close>

text \<open>
  \<^verbatim>\<open>sqrtf\<close> and \<^verbatim>\<open>fabsf\<close> are above. \<^verbatim>\<open>copysignf a b\<close> is the magnitude of \<open>a\<close> with
  the sign of \<open>b\<close> (the sign of a NaN is not represented; the sketch calls it only under
  a comparison that is false for a NaN).
\<close>

definition copysignf :: "fval \<Rightarrow> fval \<Rightarrow> fval" where
  "copysignf a b = (if signbit b then fneg (fabsf a) else fabsf a)"

text \<open>The two-argument arctangent of mathematics: the angle of the point \<open>(x, y)\<close>, in
  \<open>(-\<pi>, \<pi>]\<close>, and \<open>0\<close> at the origin.\<close>

definition atan2 :: "real \<Rightarrow> real \<Rightarrow> real" where
  "atan2 y x =
     (if 0 < x then arctan (y / x)
      else if x < 0 then (if 0 \<le> y then arctan (y / x) + pi else arctan (y / x) - pi)
      else if 0 < y then pi / 2
      else if y < 0 then - (pi / 2)
      else 0)"

text \<open>
  \<^verbatim>\<open>atan2f\<close> as ISO C (F.10.1.4) fixes it. With a zero first argument the result takes
  the sign of that zero: \<open>\<plusminus>0\<close> when the second argument is positive or \<open>+0\<close>, and
  \<open>\<plusminus>\<pi>\<close> when the second argument is negative or \<open>-0\<close>.
\<close>

definition atan2f :: "fval \<Rightarrow> fval \<Rightarrow> fval" where
  "atan2f y x =
     (if is_nan y \<or> is_nan x then NaN
      else if is_zero y then (if signbit x then copysignf (Fin pi) y else y)
      else if is_inf y then
        (if x = PInf then copysignf (Fin (pi / 4)) y
         else if x = MInf then copysignf (Fin (3 * pi / 4)) y
         else copysignf (Fin (pi / 2)) y)
      else if x = PInf then zero_of (signbit y)
      else if x = MInf then copysignf (Fin pi) y
      else Fin (atan2 (val y) (val x)))"

text \<open>\<^verbatim>\<open>asinf\<close>: a zero is returned as it is, an argument outside \<open>[-1, 1]\<close> gives NaN.\<close>

definition asinf :: "fval \<Rightarrow> fval" where
  "asinf a =
     (if is_nan a then NaN
      else if is_zero a then a
      else if is_inf a \<or> 1 < \<bar>val a\<bar> then NaN
      else Fin (arcsin (val a)))"

text \<open>
  The conversion of a \<^verbatim>\<open>float\<close> to \<^verbatim>\<open>int8_t\<close> discards the fractional part. Where the
  truncated value is not an \<^verbatim>\<open>int8_t\<close>, and for a NaN or an infinity, C++ leaves the
  result undefined: \<open>None\<close>.
\<close>

definition float_to_int8 :: "fval \<Rightarrow> int option" where
  "float_to_int8 a =
     (if is_finite a then
        (let t = (if 0 \<le> val a then \<lfloor>val a\<rfloor> else \<lceil>val a\<rceil>)
         in if - 128 \<le> t \<and> t \<le> 127 then Some t else None)
      else None)"

section \<open>The tracker (\<^verbatim>\<open>tracker.ino\<close>)\<close>

subsection \<open>Data\<close>

text \<open>
  \<^verbatim>\<open>bno.getSensorEvent(&sensorValue)\<close> returns false (\<open>None\<close>) when no report is ready,
  and otherwise fills \<^verbatim>\<open>sensorValue\<close>. The sketch looks only at reports whose
  \<^verbatim>\<open>sensorId\<close> is \<^verbatim>\<open>SH2_ROTATION_VECTOR\<close>, and there only at the four fields
  \<^verbatim>\<open>real\<close>, \<^verbatim>\<open>i\<close>, \<^verbatim>\<open>j\<close>, \<^verbatim>\<open>k\<close> of the rotation vector.
\<close>

datatype sh2_SensorValue = RotationVector fval fval fval fval | OtherReport

text \<open>The local variables \<^verbatim>\<open>qw, qx, qy, qz\<close> and the three angles.\<close>

type_synonym quaternion = "fval \<times> fval \<times> fval \<times> fval"

record euler =
  roll :: fval
  pitch :: fval
  yaw :: fval

text \<open>The fields of \<^verbatim>\<open>hid_gamepad_report_t\<close> that the sketch writes.\<close>

record hid_gamepad_report =
  report_x :: "int option"
  report_y :: "int option"
  report_z :: "int option"
  buttons :: nat

text \<open>The global variables that persist between calls.\<close>

record tracker =
  yaw_offset :: fval
  pitch_offset :: fval
  roll_offset :: fval
  gamepad_report :: hid_gamepad_report

subsection \<open>Quaternion normalisation and Euler angles\<close>

text \<open>Line 111 of \<^verbatim>\<open>loop\<close> (and the same line of \<^verbatim>\<open>initialCenter\<close> and
  \<^verbatim>\<open>resetView\<close>): the local variable \<^verbatim>\<open>norm\<close>.\<close>

definition quat_norm :: "quaternion \<Rightarrow> fval" where
  "quat_norm q =
     (case q of (qw, qx, qy, qz) \<Rightarrow>
        sqrtf (fadd (fadd (fadd (fmul qw qw) (fmul qx qx)) (fmul qy qy)) (fmul qz qz)))"

text \<open>Lines 112 to 115: four divisions by the norm, with no test of the norm.\<close>

definition normalize_quat :: "quaternion \<Rightarrow> quaternion" where
  "normalize_quat q =
     (case q of (qw, qx, qy, qz) \<Rightarrow>
        let norm = quat_norm q
        in (fdiv qw norm, fdiv qx norm, fdiv qy norm, fdiv qz norm))"

text \<open>Lines 117 to 134: the angles in radians (ZYX convention). \<^verbatim>\<open>PI\<close> is the
  constant of the Arduino core, here \<open>\<pi>\<close>.\<close>

definition quat_to_euler :: "quaternion \<Rightarrow> euler" where
  "quat_to_euler q =
     (case q of (qw, qx, qy, qz) \<Rightarrow>
        let sinr_cosp = fmul (Fin 2) (fadd (fmul qw qx) (fmul qy qz));
            cosr_cosp = fsub (Fin 1) (fmul (Fin 2) (fadd (fmul qx qx) (fmul qy qy)));
            sinp = fmul (Fin 2) (fsub (fmul qw qy) (fmul qz qx));
            siny_cosp = fmul (Fin 2) (fadd (fmul qw qz) (fmul qx qy));
            cosy_cosp = fsub (Fin 1) (fmul (Fin 2) (fadd (fmul qy qy) (fmul qz qz)))
        in \<lparr> roll = atan2f sinr_cosp cosr_cosp,
             pitch = (if fge (fabsf sinp) (Fin 1) then copysignf (fdiv (Fin pi) (Fin 2)) sinp
                      else asinf sinp),
             yaw = atan2f siny_cosp cosy_cosp \<rparr>)"

text \<open>Lines 136 to 139: each angle is multiplied by \<^verbatim>\<open>180.0f / PI\<close>.\<close>

definition to_degrees :: "euler \<Rightarrow> euler" where
  "to_degrees e =
     \<lparr> roll = fmul (roll e) (fdiv (Fin 180) (Fin pi)),
       pitch = fmul (pitch e) (fdiv (Fin 180) (Fin pi)),
       yaw = fmul (yaw e) (fdiv (Fin 180) (Fin pi)) \<rparr>"

text \<open>The decomposition of a raw sample, as \<^verbatim>\<open>loop\<close> computes it before the offsets.\<close>

definition sample_angles :: "quaternion \<Rightarrow> euler" where
  "sample_angles q = to_degrees (quat_to_euler (normalize_quat q))"

subsection \<open>Offsets and wrap-around\<close>

text \<open>
  Lines 146 to 152: two loops for each angle. A loop that does not end has no result
  (\<open>None\<close>).
\<close>

partial_function (option) while_above :: "fval \<Rightarrow> fval option" where
  "while_above a = (if fgt a (Fin 180) then while_above (fsub a (Fin 360)) else Some a)"

partial_function (option) while_below :: "fval \<Rightarrow> fval option" where
  "while_below a = (if flt a (Fin (- 180)) then while_below (fadd a (Fin 360)) else Some a)"

text \<open>Lines 141 to 152 for one angle: the offset is subtracted, then the two loops run.\<close>

definition normalize_angle :: "fval \<Rightarrow> fval \<Rightarrow> fval option" where
  "normalize_angle raw offset = Option.bind (while_above (fsub raw offset)) while_below"

subsection \<open>Mapping to the joystick range\<close>

definition mapFloat :: "fval \<Rightarrow> fval \<Rightarrow> fval \<Rightarrow> fval \<Rightarrow> fval \<Rightarrow> fval" where
  "mapFloat x in_min in_max out_min out_max =
     fadd (fdiv (fmul (fsub x in_min) (fsub out_max out_min)) (fsub in_max in_min)) out_min"

text \<open>The call of lines 155 to 157.\<close>

definition joy :: "fval \<Rightarrow> fval" where
  "joy a = mapFloat a (Fin (- 180)) (Fin 180) (Fin (- 127)) (Fin 127)"

subsection \<open>One pass of \<^verbatim>\<open>loop\<close> over a sensor poll\<close>

text \<open>
  Lines 103 to 168. The arguments are the globals, the result of the poll and whether
  \<^verbatim>\<open>usb_hid.ready()\<close> holds; the result is the new globals and the report that was
  sent, if one was. The serial command and the debugging output are left out.
\<close>

definition loop_sample ::
  "tracker \<Rightarrow> sh2_SensorValue option \<Rightarrow> bool \<Rightarrow> (tracker \<times> hid_gamepad_report option) option"
where
  "loop_sample st ev ready =
     (case ev of
        None \<Rightarrow> Some (st, None)
      | Some OtherReport \<Rightarrow> Some (st, None)
      | Some (RotationVector qw qx qy qz) \<Rightarrow>
          (let e = sample_angles (qw, qx, qy, qz) in
           Option.bind (normalize_angle (yaw e) (yaw_offset st)) (\<lambda>yaw'.
           Option.bind (normalize_angle (pitch e) (pitch_offset st)) (\<lambda>pitch'.
           Option.bind (normalize_angle (roll e) (roll_offset st)) (\<lambda>roll'.
             let rep = \<lparr> report_x = float_to_int8 (joy yaw'),
                         report_y = float_to_int8 (joy pitch'),
                         report_z = float_to_int8 (joy roll'),
                         buttons = 0 \<rparr>
             in Some (st\<lparr>gamepad_report := rep\<rparr>, if ready then Some rep else None))))))"

subsection \<open>Re-centring\<close>

text \<open>
  The body of the loop of \<^verbatim>\<open>resetView\<close> (lines 265 to 303) on the three sums. A poll
  that fails, or a report that is not a rotation vector, leaves the sums as they are.
\<close>

definition accumulate ::
  "sh2_SensorValue option \<Rightarrow> fval \<times> fval \<times> fval \<Rightarrow> fval \<times> fval \<times> fval"
where
  "accumulate ev acc =
     (case acc of (yaw_sum, pitch_sum, roll_sum) \<Rightarrow>
        (case ev of
           Some (RotationVector qw qx qy qz) \<Rightarrow>
             (let e = quat_to_euler (normalize_quat (qw, qx, qy, qz)) in
              (fadd yaw_sum (fdiv (fmul (yaw e) (Fin 180)) (Fin pi)),
               fadd pitch_sum (fdiv (fmul (pitch e) (Fin 180)) (Fin pi)),
               fadd roll_sum (fdiv (fmul (roll e) (Fin 180)) (Fin pi))))
         | _ \<Rightarrow> acc))"

text \<open>
  \<^verbatim>\<open>resetView\<close>: \<open>fetch i\<close> is the result of the poll of iteration \<open>i\<close>. The loop runs
  \<^verbatim>\<open>samples = 10\<close> times, and the sums are divided by \<^verbatim>\<open>samples\<close>. The delays and
  the serial messages are left out.
\<close>

definition samples :: nat where
  "samples = 10"

definition resetView :: "(nat \<Rightarrow> sh2_SensorValue option) \<Rightarrow> tracker \<Rightarrow> tracker" where
  "resetView fetch st =
     (case fold (\<lambda>i. accumulate (fetch i)) [0..<samples] (Fin 0, Fin 0, Fin 0) of
        (yaw_sum, pitch_sum, roll_sum) \<Rightarrow>
          st\<lparr> yaw_offset := fdiv yaw_sum (Fin (real samples)),
              pitch_offset := fdiv pitch_sum (Fin (real samples)),
              roll_offset := fdiv roll_sum (Fin (real samples)) \<rparr>)"

section \<open>Facts about finite values\<close>

lemma is_finite_iff: "is_finite a \<longleftrightarrow> a = MZero \<or> (\<exists>r. a = Fin r)"
  by (cases a) simp_all

lemma finite_not_special [simp]:
  "is_finite a \<Longrightarrow> \<not> is_nan a" "is_finite a \<Longrightarrow> \<not> is_inf a"
  "is_finite a \<Longrightarrow> a \<noteq> PInf" "is_finite a \<Longrightarrow> a \<noteq> MInf" "is_finite a \<Longrightarrow> a \<noteq> NaN"
  by (cases a; simp)+

lemma zero_of_finite [simp]: "is_finite (zero_of s)" "val (zero_of s) = 0"
  by (simp_all add: zero_of_def)

lemma is_zero_finite: "is_finite a \<Longrightarrow> is_zero a \<longleftrightarrow> val a = 0"
  by (cases a) simp_all

lemma fin_of_finite [simp]: "is_finite (fin_of s r)" "val (fin_of s r) = r"
  by (simp_all add: fin_of_def zero_of_def)

lemma fin_of_nonzero: "r \<noteq> 0 \<Longrightarrow> fin_of s r = Fin r"
  by (simp add: fin_of_def)

lemma fin_of_self: "is_finite a \<Longrightarrow> fin_of (signbit a) (val a) = a"
  by (cases a) (auto simp: fin_of_def zero_of_def)

lemma fneg_finite [simp]: "is_finite a \<Longrightarrow> is_finite (fneg a)" "is_finite a \<Longrightarrow> val (fneg a) = - val a"
  by (cases a; simp)+

lemma fadd_finite [simp]:
  assumes "is_finite a" "is_finite b"
  shows "is_finite (fadd a b)" "val (fadd a b) = val a + val b"
  using assms by (simp_all add: fadd_def)

lemma fsub_finite [simp]:
  assumes "is_finite a" "is_finite b"
  shows "is_finite (fsub a b)" "val (fsub a b) = val a - val b"
  using assms by (simp_all add: fsub_def)

lemma fmul_finite [simp]:
  assumes "is_finite a" "is_finite b"
  shows "is_finite (fmul a b)" "val (fmul a b) = val a * val b"
  using assms by (simp_all add: fmul_def is_zero_finite)

lemma fdiv_finite [simp]:
  assumes "is_finite a" "is_finite b" "val b \<noteq> 0"
  shows "is_finite (fdiv a b)" "val (fdiv a b) = val a / val b"
  using assms by (simp_all add: fdiv_def is_zero_finite)

lemma sqrtf_finite [simp]:
  assumes "is_finite a" "0 \<le> val a"
  shows "is_finite (sqrtf a)" "val (sqrtf a) = sqrt (val a)"
  using assms by (cases a; simp)+

lemma fabsf_finite [simp]:
  "is_finite a \<Longrightarrow> is_finite (fabsf a)" "is_finite a \<Longrightarrow> val (fabsf a) = \<bar>val a\<bar>"
  by (cases a; simp)+

lemma fgt_finite: "is_finite a \<Longrightarrow> is_finite b \<Longrightarrow> fgt a b \<longleftrightarrow> val b < val a"
  by (cases a; cases b; simp add: fgt_def)

lemma flt_finite: "is_finite a \<Longrightarrow> is_finite b \<Longrightarrow> flt a b \<longleftrightarrow> val a < val b"
  by (simp add: flt_def fgt_finite)

lemma fge_finite: "is_finite a \<Longrightarrow> is_finite b \<Longrightarrow> fge a b \<longleftrightarrow> val b \<le> val a"
  by (auto simp add: fge_def fgt_finite)

lemma copysignf_finite [simp]:
  assumes "is_finite a"
  shows "is_finite (copysignf a b)" "val (copysignf a b) = (if signbit b then - \<bar>val a\<bar> else \<bar>val a\<bar>)"
  using assms by (simp_all add: copysignf_def)

lemma fdiv_one: "is_finite a \<Longrightarrow> fdiv a (Fin 1) = a"
  by (simp add: fdiv_def fin_of_self)

lemma atan2_bounds: "- pi < atan2 y x" "atan2 y x \<le> pi"
  using arctan_lbound [of "y / x"] arctan_ubound [of "y / x"] pi_gt_zero
  by (auto simp add: atan2_def divide_le_0_iff zero_less_divide_iff)

lemma atan2f_finite:
  assumes "is_finite y" "is_finite x"
  shows "is_finite (atan2f y x)" "\<bar>val (atan2f y x)\<bar> \<le> pi"
proof -
  show "is_finite (atan2f y x)"
    using assms by (simp add: atan2f_def)
  show "\<bar>val (atan2f y x)\<bar> \<le> pi"
    using assms atan2_bounds [of "val y" "val x"]
    by (auto simp add: atan2f_def is_zero_finite)
qed

lemma atan2f_val:
  assumes "is_finite y" "is_finite x" "x \<noteq> MZero"
  shows "val (atan2f y x) = (if y = MZero \<and> val x < 0 then - pi else atan2 (val y) (val x))"
  using assms
  by (cases y; cases x; simp add: atan2f_def atan2_def)

lemma asinf_finite:
  assumes "is_finite a" "\<bar>val a\<bar> \<le> 1"
  shows "is_finite (asinf a)" "val (asinf a) = arcsin (val a)"
  using assms by (auto simp add: asinf_def is_finite_iff)


lemma signbit_finite: "is_finite a \<Longrightarrow> val a \<noteq> 0 \<Longrightarrow> signbit a \<longleftrightarrow> val a < 0"
  by (cases a) simp_all

subsection \<open>The normalisation of a quaternion\<close>



lemma normalize_quat_unit:
  assumes fin: "is_finite qw" "is_finite qx" "is_finite qy" "is_finite qz"
    and unit: "(val qw)\<^sup>2 + (val qx)\<^sup>2 + (val qy)\<^sup>2 + (val qz)\<^sup>2 = 1"
  shows "normalize_quat (qw, qx, qy, qz) = (qw, qx, qy, qz)"
proof -
  let ?S = "fadd (fadd (fadd (fmul qw qw) (fmul qx qx)) (fmul qy qy)) (fmul qz qz)"
  have "is_finite ?S" "val ?S = 1"
    using fin unit by (simp_all add: power2_eq_square)
  then have "?S = Fin 1"
    by (cases ?S) simp_all
  then have "quat_norm (qw, qx, qy, qz) = Fin 1"
    by (simp add: quat_norm_def)
  then show ?thesis
    using fin by (simp add: normalize_quat_def Let_def fdiv_one)
qed


subsection \<open>The wrap-around loops\<close>

lemma fsub_Fin: "fsub (Fin r) (Fin c) = Fin (r - c)"
  by (simp add: fsub_def fadd_def fin_of_def zero_of_def)

lemma fadd_Fin: "fadd (Fin r) (Fin c) = Fin (r + c)"
  by (simp add: fadd_def fin_of_def zero_of_def)

lemma fsub_zero: "fsub a (Fin 0) = a"
  by (cases a) (simp_all add: fsub_def fadd_def fin_of_def zero_of_def)

lemma while_above_stop: "\<not> fgt a (Fin 180) \<Longrightarrow> while_above a = Some a"
  by (subst while_above.simps) simp

lemma while_below_stop: "\<not> flt a (Fin (- 180)) \<Longrightarrow> while_below a = Some a"
  by (subst while_below.simps) simp







text \<open>Whatever the two loops return lies between the two bounds.\<close>

lemma while_above_result:
  assumes "while_above a = Some v"
  shows "\<not> fgt v (Fin 180)"
  using assms
proof (induction rule: while_above.raw_induct [rotated 1, consumes 1])
  case (1 f a v)
  then show ?case
    by (auto split: if_splits)
qed

lemma while_below_result:
  assumes "while_below a = Some v"
  shows "\<not> fgt a (Fin 180) \<longrightarrow> \<not> fgt v (Fin 180) \<and> \<not> flt v (Fin (- 180))"
  using assms
proof (induction rule: while_below.raw_induct [rotated 1, consumes 1])
  case (1 f a v)
  have step: "\<not> fgt (fadd a (Fin 360)) (Fin 180)" if "flt a (Fin (- 180))"
    using that by (cases a) (simp_all add: flt_def fgt_def fadd_def fin_of_def zero_of_def)
  from 1 show ?case
    using step by (auto split: if_splits)
qed

lemma normalize_angle_result:
  assumes "normalize_angle raw offset = Some v"
  shows "\<not> fgt v (Fin 180)" "\<not> flt v (Fin (- 180))"
proof -
  from assms obtain a where a: "while_above (fsub raw offset) = Some a" "while_below a = Some v"
    by (auto simp: normalize_angle_def split: bind_splits)
  from while_above_result [OF a(1)] while_below_result [OF a(2)]
  show "\<not> fgt v (Fin 180)" "\<not> flt v (Fin (- 180))"
    by simp_all
qed

lemma normalize_angle_again:
  assumes "normalize_angle raw offset = Some v"
  shows "normalize_angle v (Fin 0) = Some v"
  using normalize_angle_result [OF assms]
  by (simp add: normalize_angle_def fsub_zero while_above_stop while_below_stop)

section \<open>The Euler angles of a sample\<close>

lemma fmul_two_MZero: "is_finite a \<Longrightarrow> fmul (Fin 2) a = MZero \<longleftrightarrow> a = MZero"
  by (cases a) (simp_all add: fmul_def fin_of_def zero_of_def)

lemma fadd_MZero: "is_finite a \<Longrightarrow> is_finite b \<Longrightarrow> fadd a b = MZero \<longleftrightarrow> a = MZero \<and> b = MZero"
  by (cases a; cases b; simp add: fadd_def fin_of_def zero_of_def)

lemma fsub_one_not_MZero: "fsub (Fin 1) a \<noteq> MZero"
  by (cases a) (simp_all add: fsub_def fadd_def fin_of_def zero_of_def)

lemma pi_half: "fdiv (Fin pi) (Fin 2) = Fin (pi / 2)"
  by (simp add: fdiv_def fin_of_def)

lemma deg_factor: "fdiv (Fin 180) (Fin pi) = Fin (180 / pi)"
  by (simp add: fdiv_def fin_of_def)

lemma to_degrees_finite:
  assumes "is_finite a"
  shows "is_finite (fmul a (fdiv (Fin 180) (Fin pi)))"
    "val (fmul a (fdiv (Fin 180) (Fin pi))) = val a * (180 / pi)"
  using assms by (simp_all add: deg_factor)

lemma roll_quat_to_euler:
  assumes "is_finite qw" "is_finite qx" "is_finite qy" "is_finite qz"
  shows "is_finite (roll (quat_to_euler (qw, qx, qy, qz)))"
    and "\<bar>val (roll (quat_to_euler (qw, qx, qy, qz)))\<bar> \<le> pi"
    and "val (roll (quat_to_euler (qw, qx, qy, qz))) =
      (if fmul qw qx = MZero \<and> fmul qy qz = MZero \<and> 1 - 2 * ((val qx)\<^sup>2 + (val qy)\<^sup>2) < 0
       then - pi
       else atan2 (2 * (val qw * val qx + val qy * val qz)) (1 - 2 * ((val qx)\<^sup>2 + (val qy)\<^sup>2)))"
proof -
  let ?s = "fmul (Fin 2) (fadd (fmul qw qx) (fmul qy qz))"
  let ?c = "fsub (Fin 1) (fmul (Fin 2) (fadd (fmul qx qx) (fmul qy qy)))"
  have r: "roll (quat_to_euler (qw, qx, qy, qz)) = atan2f ?s ?c"
    by (simp add: quat_to_euler_def Let_def)
  have s: "is_finite ?s" "val ?s = 2 * (val qw * val qx + val qy * val qz)"
    "?s = MZero \<longleftrightarrow> fmul qw qx = MZero \<and> fmul qy qz = MZero"
    using assms by (simp_all add: fmul_two_MZero fadd_MZero)
  have c: "is_finite ?c" "val ?c = 1 - 2 * ((val qx)\<^sup>2 + (val qy)\<^sup>2)" "?c \<noteq> MZero"
    using assms by (simp_all add: power2_eq_square fsub_one_not_MZero)
  show "is_finite (roll (quat_to_euler (qw, qx, qy, qz)))"
    unfolding r using s(1) c(1) by (rule atan2f_finite)
  show "\<bar>val (roll (quat_to_euler (qw, qx, qy, qz)))\<bar> \<le> pi"
    unfolding r using s(1) c(1) by (rule atan2f_finite)
  show "val (roll (quat_to_euler (qw, qx, qy, qz))) =
      (if fmul qw qx = MZero \<and> fmul qy qz = MZero \<and> 1 - 2 * ((val qx)\<^sup>2 + (val qy)\<^sup>2) < 0
       then - pi
       else atan2 (2 * (val qw * val qx + val qy * val qz)) (1 - 2 * ((val qx)\<^sup>2 + (val qy)\<^sup>2)))"
    unfolding r atan2f_val [OF s(1) c(1) c(3)] s(2) s(3) c(2) by simp
qed

lemma yaw_quat_to_euler:
  assumes "is_finite qw" "is_finite qx" "is_finite qy" "is_finite qz"
  shows "is_finite (yaw (quat_to_euler (qw, qx, qy, qz)))"
    and "\<bar>val (yaw (quat_to_euler (qw, qx, qy, qz)))\<bar> \<le> pi"
    and "val (yaw (quat_to_euler (qw, qx, qy, qz))) =
      (if fmul qw qz = MZero \<and> fmul qx qy = MZero \<and> 1 - 2 * ((val qy)\<^sup>2 + (val qz)\<^sup>2) < 0
       then - pi
       else atan2 (2 * (val qw * val qz + val qx * val qy)) (1 - 2 * ((val qy)\<^sup>2 + (val qz)\<^sup>2)))"
proof -
  let ?s = "fmul (Fin 2) (fadd (fmul qw qz) (fmul qx qy))"
  let ?c = "fsub (Fin 1) (fmul (Fin 2) (fadd (fmul qy qy) (fmul qz qz)))"
  have r: "yaw (quat_to_euler (qw, qx, qy, qz)) = atan2f ?s ?c"
    by (simp add: quat_to_euler_def Let_def)
  have s: "is_finite ?s" "val ?s = 2 * (val qw * val qz + val qx * val qy)"
    "?s = MZero \<longleftrightarrow> fmul qw qz = MZero \<and> fmul qx qy = MZero"
    using assms by (simp_all add: fmul_two_MZero fadd_MZero)
  have c: "is_finite ?c" "val ?c = 1 - 2 * ((val qy)\<^sup>2 + (val qz)\<^sup>2)" "?c \<noteq> MZero"
    using assms by (simp_all add: power2_eq_square fsub_one_not_MZero)
  show "is_finite (yaw (quat_to_euler (qw, qx, qy, qz)))"
    unfolding r using s(1) c(1) by (rule atan2f_finite)
  show "\<bar>val (yaw (quat_to_euler (qw, qx, qy, qz)))\<bar> \<le> pi"
    unfolding r using s(1) c(1) by (rule atan2f_finite)
  show "val (yaw (quat_to_euler (qw, qx, qy, qz))) =
      (if fmul qw qz = MZero \<and> fmul qx qy = MZero \<and> 1 - 2 * ((val qy)\<^sup>2 + (val qz)\<^sup>2) < 0
       then - pi
       else atan2 (2 * (val qw * val qz + val qx * val qy)) (1 - 2 * ((val qy)\<^sup>2 + (val qz)\<^sup>2)))"
    unfolding r atan2f_val [OF s(1) c(1) c(3)] s(2) s(3) c(2) by simp
qed

lemma pitch_quat_to_euler:
  assumes "is_finite qw" "is_finite qx" "is_finite qy" "is_finite qz"
  defines "s \<equiv> 2 * (val qw * val qy - val qz * val qx)"
  shows "is_finite (pitch (quat_to_euler (qw, qx, qy, qz)))"
    and "val (pitch (quat_to_euler (qw, qx, qy, qz))) =
      (if 1 \<le> \<bar>s\<bar> then (if s < 0 then - (pi / 2) else pi / 2) else arcsin s)"
proof -
  let ?p = "fmul (Fin 2) (fsub (fmul qw qy) (fmul qz qx))"
  have p: "pitch (quat_to_euler (qw, qx, qy, qz)) =
      (if fge (fabsf ?p) (Fin 1) then copysignf (fdiv (Fin pi) (Fin 2)) ?p else asinf ?p)"
    by (simp add: quat_to_euler_def Let_def)
  have fin: "is_finite ?p" and v: "val ?p = s"
    using assms by (simp_all add: s_def)
  have g: "fge (fabsf ?p) (Fin 1) \<longleftrightarrow> 1 \<le> \<bar>s\<bar>"
    using fin v by (simp add: fge_finite)
  show "is_finite (pitch (quat_to_euler (qw, qx, qy, qz)))"
  proof (cases "1 \<le> \<bar>s\<bar>")
    case True
    then show ?thesis
      unfolding p g by (simp add: pi_half)
  next
    case False
    then have "\<bar>val ?p\<bar> \<le> 1"
      using v by simp
    with False show ?thesis
      unfolding p g using asinf_finite(1) [OF fin] by simp
  qed
  show "val (pitch (quat_to_euler (qw, qx, qy, qz))) =
      (if 1 \<le> \<bar>s\<bar> then (if s < 0 then - (pi / 2) else pi / 2) else arcsin s)"
  proof (cases "1 \<le> \<bar>s\<bar>")
    case True
    then have "val ?p \<noteq> 0"
      using v by auto
    then have "signbit ?p \<longleftrightarrow> s < 0"
      using signbit_finite [OF fin] v by simp
    with True show ?thesis
      unfolding p g by (simp add: pi_half)
  next
    case False
    then have "\<bar>val ?p\<bar> \<le> 1"
      using v by simp
    with False show ?thesis
      unfolding p g using asinf_finite(2) [OF fin] v by simp
  qed
qed






lemma sample_angles_sel:
  "roll (sample_angles q) = fmul (roll (quat_to_euler (normalize_quat q))) (fdiv (Fin 180) (Fin pi))"
  "pitch (sample_angles q) = fmul (pitch (quat_to_euler (normalize_quat q))) (fdiv (Fin 180) (Fin pi))"
  "yaw (sample_angles q) = fmul (yaw (quat_to_euler (normalize_quat q))) (fdiv (Fin 180) (Fin pi))"
  by (simp_all add: sample_angles_def to_degrees_def)

subsection \<open>Evaluation on literals\<close>

lemma fmul_Fin:
  "fmul (Fin a) (Fin b) = (if a * b = 0 then (if (a < 0) \<noteq> (b < 0) then MZero else Fin 0) else Fin (a * b))"
  by (simp add: fmul_def fin_of_def zero_of_def)

lemma fmul_Fin_MZero: "fmul (Fin a) MZero = (if a < 0 then Fin 0 else MZero)"
  by (simp add: fmul_def fin_of_def zero_of_def)

lemma fadd_MZero_MZero: "fadd MZero MZero = MZero"
  by (simp add: fadd_def fin_of_def zero_of_def)

lemma fdiv_Fin: "b \<noteq> 0 \<Longrightarrow>
  fdiv (Fin a) (Fin b) = (if a = 0 then (if b < 0 then MZero else Fin 0) else Fin (a / b))"
  by (simp add: fdiv_def fin_of_def zero_of_def)

lemma atan2f_MZero_neg: "x < 0 \<Longrightarrow> atan2f MZero (Fin x) = Fin (- pi)"
  by (simp add: atan2f_def copysignf_def fin_of_def zero_of_def)

lemma atan2f_Fin: "y \<noteq> 0 \<Longrightarrow> atan2f (Fin y) (Fin x) = Fin (atan2 y x)"
  by (simp add: atan2f_def)

lemma atan2f_zero_pos: "0 < x \<Longrightarrow> atan2f (Fin 0) (Fin x) = Fin 0"
  by (simp add: atan2f_def)

lemma atan2f_zero_neg: "x < 0 \<Longrightarrow> atan2f (Fin 0) (Fin x) = Fin pi"
  by (simp add: atan2f_def copysignf_def)


lemmas lit = fmul_Fin fadd_Fin fsub_Fin fdiv_Fin fadd_MZero_MZero fmul_Fin_MZero
  atan2f_MZero_neg atan2f_Fin atan2f_zero_pos atan2f_zero_neg deg_factor pi_half

subsection \<open>Pitch\<close>



subsection \<open>Roll and yaw\<close>

text \<open>
  The values of the roll and the yaw of a unit quaternion. \<^verbatim>\<open>atan2f\<close> and the
  arctangent of mathematics differ in one case: when both products of the first argument
  are negative zeros, the first argument is the negative zero, and with a negative second
  argument \<^verbatim>\<open>atan2f\<close> returns \<open>-\<pi>\<close>.
\<close>

lemma roll_yaw_values:
  assumes "is_finite qw" "is_finite qx" "is_finite qy" "is_finite qz"
    and "(val qw)\<^sup>2 + (val qx)\<^sup>2 + (val qy)\<^sup>2 + (val qz)\<^sup>2 = 1"
  shows "val (roll (sample_angles (qw, qx, qy, qz))) =
           (if fmul qw qx = MZero \<and> fmul qy qz = MZero \<and> 1 - 2 * ((val qx)\<^sup>2 + (val qy)\<^sup>2) < 0
            then - 180
            else atan2 (2 * (val qw * val qx + val qy * val qz))
                   (1 - 2 * ((val qx)\<^sup>2 + (val qy)\<^sup>2)) * (180 / pi)) \<and>
         val (yaw (sample_angles (qw, qx, qy, qz))) =
           (if fmul qw qz = MZero \<and> fmul qx qy = MZero \<and> 1 - 2 * ((val qy)\<^sup>2 + (val qz)\<^sup>2) < 0
            then - 180
            else atan2 (2 * (val qw * val qz + val qx * val qy))
                   (1 - 2 * ((val qy)\<^sup>2 + (val qz)\<^sup>2)) * (180 / pi)) \<and>
         val (pitch (sample_angles (qw, qx, qy, qz))) =
           val (pitch (quat_to_euler (qw, qx, qy, qz))) * (180 / pi)"
proof -
  note fin = assms(1-4)
  have n: "normalize_quat (qw, qx, qy, qz) = (qw, qx, qy, qz)"
    using assms by (rule normalize_quat_unit)
  show ?thesis
    unfolding sample_angles_sel n
    using roll_quat_to_euler [OF fin] yaw_quat_to_euler [OF fin] pitch_quat_to_euler(1) [OF fin]
    by (simp add: to_degrees_finite)
qed

text \<open>
  An instance is the unit quaternion \<open>(0, 0, -4/5, -3/5)\<close>: \<^verbatim>\<open>qw * qz\<close> and
  \<^verbatim>\<open>qx * qy\<close> are products of the positive zero with a negative number, hence negative
  zeros, their sum and its double are the negative zero, and \<^verbatim>\<open>cosy_cosp\<close> is -1. The
  yaw is \<^verbatim>\<open>atan2f(-0.0f, -1.0f)\<close> in degrees, -180.
\<close>

lemma yaw_at_negative_zero:
  "yaw (sample_angles (Fin 0, Fin 0, Fin (- 4 / 5), Fin (- 3 / 5))) = Fin (- 180) \<and>
   atan2 (2 * (0 * (- 3 / 5) + 0 * (- 4 / 5))) (1 - 2 * ((- 4 / 5)\<^sup>2 + (- 3 / 5)\<^sup>2)) * (180 / pi) = 180 \<and>
   (0::real)\<^sup>2 + 0\<^sup>2 + (- 4 / 5)\<^sup>2 + (- 3 / 5)\<^sup>2 = 1"
proof -
  have n: "normalize_quat (Fin 0, Fin 0, Fin (- 4 / 5), Fin (- 3 / 5)) =
      (Fin 0, Fin 0, Fin (- 4 / 5), Fin (- 3 / 5))"
    by (rule normalize_quat_unit) (simp_all add: power2_eq_square)
  have y: "yaw (quat_to_euler (Fin 0, Fin 0, Fin (- 4 / 5), Fin (- 3 / 5))) = Fin (- pi)"
    by (simp add: quat_to_euler_def Let_def lit)
  have "yaw (sample_angles (Fin 0, Fin 0, Fin (- 4 / 5), Fin (- 3 / 5))) = Fin (- 180)"
    unfolding sample_angles_sel n y by (simp add: lit)
  moreover have "atan2 0 (- 1) = pi"
    by (simp add: atan2_def)
  ultimately show ?thesis
    by (simp add: power2_eq_square)
qed

text \<open>
  C6. For every unit quaternion \<open>(w, x, y, z)\<close> the roll is \<^verbatim>\<open>atan2f\<close> of two finite
  arguments with the values \<open>2 (w x + y z)\<close> and \<open>1 - 2 (x\<^sup>2 + y\<^sup>2)\<close>, the yaw is
  \<^verbatim>\<open>atan2f\<close> of two finite arguments with the values \<open>2 (w z + x y)\<close> and
  \<open>1 - 2 (y\<^sup>2 + z\<^sup>2)\<close>, and roll, yaw and pitch are the angles in radians multiplied
  by \<open>180 / \<pi>\<close>. Unless the first argument is the negative zero and the second is
  negative, the value is that of the arctangent of mathematics.
\<close>

theorem roll_yaw_atan2:
  assumes "is_finite qw" "is_finite qx" "is_finite qy" "is_finite qz"
    and "(val qw)\<^sup>2 + (val qx)\<^sup>2 + (val qy)\<^sup>2 + (val qz)\<^sup>2 = 1"
  shows "\<exists>sinr_cosp cosr_cosp siny_cosp cosy_cosp.
           is_finite sinr_cosp \<and> val sinr_cosp = 2 * (val qw * val qx + val qy * val qz) \<and>
           is_finite cosr_cosp \<and> val cosr_cosp = 1 - 2 * ((val qx)\<^sup>2 + (val qy)\<^sup>2) \<and>
           is_finite siny_cosp \<and> val siny_cosp = 2 * (val qw * val qz + val qx * val qy) \<and>
           is_finite cosy_cosp \<and> val cosy_cosp = 1 - 2 * ((val qy)\<^sup>2 + (val qz)\<^sup>2) \<and>
           roll (sample_angles (qw, qx, qy, qz)) =
             fmul (atan2f sinr_cosp cosr_cosp) (fdiv (Fin 180) (Fin pi)) \<and>
           yaw (sample_angles (qw, qx, qy, qz)) =
             fmul (atan2f siny_cosp cosy_cosp) (fdiv (Fin 180) (Fin pi)) \<and>
           pitch (sample_angles (qw, qx, qy, qz)) =
             fmul (pitch (quat_to_euler (qw, qx, qy, qz))) (fdiv (Fin 180) (Fin pi)) \<and>
           (sinr_cosp \<noteq> MZero \<or> 0 \<le> val cosr_cosp \<longrightarrow>
              val (roll (sample_angles (qw, qx, qy, qz))) =
                atan2 (2 * (val qw * val qx + val qy * val qz))
                  (1 - 2 * ((val qx)\<^sup>2 + (val qy)\<^sup>2)) * (180 / pi)) \<and>
           (siny_cosp \<noteq> MZero \<or> 0 \<le> val cosy_cosp \<longrightarrow>
              val (yaw (sample_angles (qw, qx, qy, qz))) =
                atan2 (2 * (val qw * val qz + val qx * val qy))
                  (1 - 2 * ((val qy)\<^sup>2 + (val qz)\<^sup>2)) * (180 / pi))"
proof -
  note fin = assms(1-4)
  let ?sr = "fmul (Fin 2) (fadd (fmul qw qx) (fmul qy qz))"
  let ?cr = "fsub (Fin 1) (fmul (Fin 2) (fadd (fmul qx qx) (fmul qy qy)))"
  let ?sy = "fmul (Fin 2) (fadd (fmul qw qz) (fmul qx qy))"
  let ?cy = "fsub (Fin 1) (fmul (Fin 2) (fadd (fmul qy qy) (fmul qz qz)))"
  have n: "normalize_quat (qw, qx, qy, qz) = (qw, qx, qy, qz)"
    using assms by (rule normalize_quat_unit)
  have sr: "is_finite ?sr" "val ?sr = 2 * (val qw * val qx + val qy * val qz)"
    and cr: "is_finite ?cr" "val ?cr = 1 - 2 * ((val qx)\<^sup>2 + (val qy)\<^sup>2)"
    and sy: "is_finite ?sy" "val ?sy = 2 * (val qw * val qz + val qx * val qy)"
    and cy: "is_finite ?cy" "val ?cy = 1 - 2 * ((val qy)\<^sup>2 + (val qz)\<^sup>2)"
    using fin by (simp_all add: power2_eq_square)
  have r: "roll (sample_angles (qw, qx, qy, qz)) = fmul (atan2f ?sr ?cr) (fdiv (Fin 180) (Fin pi))"
    and y: "yaw (sample_angles (qw, qx, qy, qz)) = fmul (atan2f ?sy ?cy) (fdiv (Fin 180) (Fin pi))"
    and p: "pitch (sample_angles (qw, qx, qy, qz)) =
      fmul (pitch (quat_to_euler (qw, qx, qy, qz))) (fdiv (Fin 180) (Fin pi))"
    unfolding sample_angles_sel n by (simp_all add: quat_to_euler_def Let_def)
  have rv: "val (roll (sample_angles (qw, qx, qy, qz))) =
      atan2 (2 * (val qw * val qx + val qy * val qz))
        (1 - 2 * ((val qx)\<^sup>2 + (val qy)\<^sup>2)) * (180 / pi)"
    if "?sr \<noteq> MZero \<or> 0 \<le> val ?cr"
    unfolding r to_degrees_finite(2) [OF atan2f_finite(1) [OF sr(1) cr(1)]]
      atan2f_val [OF sr(1) cr(1) fsub_one_not_MZero]
    using that sr(2) cr(2) by auto
  have yv: "val (yaw (sample_angles (qw, qx, qy, qz))) =
      atan2 (2 * (val qw * val qz + val qx * val qy))
        (1 - 2 * ((val qy)\<^sup>2 + (val qz)\<^sup>2)) * (180 / pi)"
    if "?sy \<noteq> MZero \<or> 0 \<le> val ?cy"
    unfolding y to_degrees_finite(2) [OF atan2f_finite(1) [OF sy(1) cy(1)]]
      atan2f_val [OF sy(1) cy(1) fsub_one_not_MZero]
    using that sy(2) cy(2) by auto
  show ?thesis
    using sr cr sy cy r y p rv yv
    by (intro exI [of _ ?sr] exI [of _ ?cr] exI [of _ ?sy] exI [of _ ?cy]) blast
qed

theorem roll_yaw_atan2_witness:
  "is_finite (Fin (1 / 2)) \<and> (1 / 2 :: real)\<^sup>2 + (1 / 2)\<^sup>2 + (1 / 2)\<^sup>2 + (1 / 2)\<^sup>2 = 1 \<and>
   val (roll (sample_angles (Fin (1 / 2), Fin (1 / 2), Fin (1 / 2), Fin (1 / 2)))) = 90 \<and>
   val (yaw (sample_angles (Fin (1 / 2), Fin (1 / 2), Fin (1 / 2), Fin (1 / 2)))) = 90"
proof -
  have u: "(val (Fin (1 / 2)))\<^sup>2 + (val (Fin (1 / 2)))\<^sup>2 + (val (Fin (1 / 2)))\<^sup>2 +
      (val (Fin (1 / 2)))\<^sup>2 = 1"
    by (simp add: power2_eq_square)
  have a: "atan2 1 0 * (180 / pi) = 90"
    by (simp add: atan2_def)
  from roll_yaw_atan2 [OF _ _ _ _ u] a show ?thesis
    by (auto simp add: power2_eq_square)
qed

subsection \<open>The range of the three angles\<close>




section \<open>The angle normaliser\<close>




text \<open>
  C4 (as the code has it). The normaliser subtracts the offset on every application, so
  it is the wrap-around that is idempotent: an angle that the normaliser has returned is
  returned unchanged when the normaliser is applied to it with offset zero.
\<close>

theorem normalize_angle_idempotent_zero_offset:
  assumes "normalize_angle raw offset = Some v"
  shows "normalize_angle v (Fin 0) = Some v"
  using assms by (rule normalize_angle_again)

theorem normalize_angle_idempotent_zero_offset_witness:
  "normalize_angle (Fin 190) (Fin 10) = Some (Fin 180) \<and>
   normalize_angle (Fin 180) (Fin 0) = Some (Fin 180)"
proof -
  have h: "normalize_angle (Fin 190) (Fin 10) = Some (Fin 180)"
    by (simp add: normalize_angle_def fsub_Fin while_above_stop while_below_stop fgt_def flt_def)
  show ?thesis
    using h normalize_angle_idempotent_zero_offset [OF h] by simp
qed

text \<open>
  C4 as the specification states it, with the same offset applied again: the angle 10
  with offset 10 is normalised to 0, and 0 with offset 10 is normalised to -10.
\<close>

theorem normalize_angle_same_offset_changes:
  "normalize_angle (Fin 10) (Fin 10) = Some (Fin 0) \<and>
   normalize_angle (Fin 0) (Fin 10) = Some (Fin (- 10)) \<and>
   Fin (- 10) \<noteq> Fin 0"
  by (simp add: normalize_angle_def fsub_Fin while_above_stop while_below_stop fgt_def flt_def)



section \<open>Degenerate quaternions\<close>

subsection \<open>NaN\<close>

lemma is_nan_iff: "is_nan a \<longleftrightarrow> a = NaN"
  by (cases a) simp_all

lemma nan_arith [simp]:
  "fadd NaN b = NaN" "fadd a NaN = NaN" "fsub NaN b = NaN" "fsub a NaN = NaN"
  "fmul NaN b = NaN" "fmul a NaN = NaN" "fdiv NaN b = NaN" "fdiv a NaN = NaN"
  by (simp_all add: fadd_def fsub_def fmul_def fdiv_def)

lemma nan_libm [simp]:
  "atan2f NaN x = NaN" "atan2f y NaN = NaN" "asinf NaN = NaN"
  "\<not> fgt NaN b" "\<not> fgt a NaN" "\<not> flt NaN b" "\<not> flt a NaN" "\<not> fge NaN b"
  by (simp_all add: atan2f_def asinf_def fgt_def flt_def fge_def)





subsection \<open>The norm\<close>

lemma fmul_self:
  "fmul a a = (if is_nan a then NaN else if is_inf a then PInf else Fin (val a * val a))"
  by (cases a) (simp_all add: fmul_def fin_of_def zero_of_def inf_of_def)

lemma sum_squares:
  "fadd (fadd (fadd (fmul qw qw) (fmul qx qx)) (fmul qy qy)) (fmul qz qz) =
     (if is_nan qw \<or> is_nan qx \<or> is_nan qy \<or> is_nan qz then NaN
      else if is_inf qw \<or> is_inf qx \<or> is_inf qy \<or> is_inf qz then PInf
      else Fin (val qw * val qw + val qx * val qx + val qy * val qy + val qz * val qz))"
  by (cases qw; cases qx; cases qy; cases qz; simp add: fmul_self fadd_Fin) (simp_all add: fadd_def)

lemma quat_norm_cases:
  "quat_norm (qw, qx, qy, qz) =
     (if is_nan qw \<or> is_nan qx \<or> is_nan qy \<or> is_nan qz then NaN
      else if is_inf qw \<or> is_inf qx \<or> is_inf qy \<or> is_inf qz then PInf
      else Fin (sqrt (val qw * val qw + val qx * val qx + val qy * val qy + val qz * val qz)))"
proof -
  have "\<not> val qw * val qw + val qx * val qx + val qy * val qy + val qz * val qz < 0"
    by (simp add: not_less)
  then show ?thesis
    unfolding quat_norm_def prod.case sum_squares by simp
qed

lemma not_finite_iff: "\<not> is_finite a \<longleftrightarrow> is_nan a \<or> is_inf a"
  by (cases a) simp_all













section \<open>The range mapper\<close>

lemma mapFloat_Fin:
  assumes "in_min \<noteq> in_max"
  shows "is_finite (mapFloat (Fin a) (Fin in_min) (Fin in_max) (Fin out_min) (Fin out_max))"
    and "val (mapFloat (Fin a) (Fin in_min) (Fin in_max) (Fin out_min) (Fin out_max)) =
           (a - in_min) * (out_max - out_min) / (in_max - in_min) + out_min"
  using assms by (simp_all add: mapFloat_def)

lemma joy_Fin: "joy (Fin a) = Fin ((a - (- 180)) * (127 - (- 127)) / (180 - (- 180)) + (- 127))"
proof -
  have "is_finite (joy (Fin a))"
    "val (joy (Fin a)) = (a - (- 180)) * (127 - (- 127)) / (180 - (- 180)) + (- 127)"
    unfolding joy_def by (rule mapFloat_Fin, simp)+
  moreover have "joy (Fin a) \<noteq> MZero"
    by (simp add: joy_def mapFloat_def fadd_def fin_of_def zero_of_def)
  ultimately show ?thesis
    by (cases "joy (Fin a)") simp_all
qed




section \<open>Re-centring\<close>

lemma accumulate_None: "accumulate None acc = acc"
  by (cases acc) (simp add: accumulate_def)

lemma fold_accumulate_None:
  "\<forall>i\<in>set xs. fetch i = None \<Longrightarrow> fold (\<lambda>i. accumulate (fetch i)) xs acc = acc"
  by (induction xs arbitrary: acc) (simp_all add: accumulate_None)

text \<open>
  C9. When each of the ten polls of \<^verbatim>\<open>resetView\<close> fails, the three sums are still
  zero at the end and are divided by ten: the three offsets become \<open>0\<close>, whatever they
  were before.
\<close>

theorem resetView_all_polls_fail:
  assumes "\<forall>i<10. fetch i = None"
  shows "resetView fetch st =
           st\<lparr>yaw_offset := Fin 0, pitch_offset := Fin 0, roll_offset := Fin 0\<rparr>"
proof -
  have "fold (\<lambda>i. accumulate (fetch i)) [0..<samples] (Fin 0, Fin 0, Fin 0) = (Fin 0, Fin 0, Fin 0)"
    using assms by (intro fold_accumulate_None) (simp add: samples_def)
  then show ?thesis
    by (simp add: resetView_def samples_def fdiv_Fin)
qed

theorem resetView_all_polls_fail_witness:
  "resetView (\<lambda>i. None)
     \<lparr>yaw_offset = Fin 30, pitch_offset = Fin (- 5), roll_offset = Fin 2,
      gamepad_report = \<lparr>report_x = Some 0, report_y = Some 0, report_z = Some 0, buttons = 0\<rparr>\<rparr> =
   \<lparr>yaw_offset = Fin 0, pitch_offset = Fin 0, roll_offset = Fin 0,
    gamepad_report = \<lparr>report_x = Some 0, report_y = Some 0, report_z = Some 0, buttons = 0\<rparr>\<rparr>"
  using resetView_all_polls_fail [of "\<lambda>i. None"]
  by simp

lemma euler_half_turn:
  "quat_to_euler (normalize_quat (Fin 0, Fin 0, Fin 0, Fin 1)) =
     \<lparr>roll = Fin 0, pitch = Fin 0, yaw = Fin pi\<rparr>"
proof -
  have n: "normalize_quat (Fin 0, Fin 0, Fin 0, Fin 1) = (Fin 0, Fin 0, Fin 0, Fin 1)"
    by (rule normalize_quat_unit) simp_all
  show ?thesis
    unfolding n by (simp add: quat_to_euler_def Let_def lit fge_def fgt_def asinf_def)
qed

lemma accumulate_half_turn:
  "accumulate (Some (RotationVector (Fin 0) (Fin 0) (Fin 0) (Fin 1))) (Fin a, Fin b, Fin c) =
     (Fin (a + 180), Fin b, Fin c)"
  by (simp add: accumulate_def euler_half_turn lit)

lemma upt_10: "[0..<10] = [0, 1, 2, 3, 4, 5, 6, 7, 8, 9]"
  by code_simp

text \<open>
  C2. \<^verbatim>\<open>resetView\<close> polls ten times and divides the sums by ten, also when fewer than
  ten polls gave a sample. The quaternion \<open>(0, 0, 0, 1)\<close> has the yaw 180 degrees; when
  the first five polls return it and the other five fail, the yaw offset becomes
  \<open>900 / 10 = 90\<close> degrees, not the mean 180 of the samples that were read.
\<close>

theorem resetView_divides_by_ten:
  "sample_angles (Fin 0, Fin 0, Fin 0, Fin 1) = \<lparr>roll = Fin 0, pitch = Fin 0, yaw = Fin 180\<rparr> \<and>
   resetView
     (\<lambda>i. if i < 5 then Some (RotationVector (Fin 0) (Fin 0) (Fin 0) (Fin 1)) else None) st =
   st\<lparr>yaw_offset := Fin 90, pitch_offset := Fin 0, roll_offset := Fin 0\<rparr>"
proof -
  have "sample_angles (Fin 0, Fin 0, Fin 0, Fin 1) = \<lparr>roll = Fin 0, pitch = Fin 0, yaw = Fin 180\<rparr>"
    by (simp add: sample_angles_def euler_half_turn to_degrees_def lit)
  moreover have "fold (\<lambda>i. accumulate
      (if i < 5 then Some (RotationVector (Fin 0) (Fin 0) (Fin 0) (Fin 1)) else None))
      [0..<samples] (Fin 0, Fin 0, Fin 0) = (Fin 900, Fin 0, Fin 0)"
    by (simp add: samples_def upt_10 accumulate_half_turn accumulate_None)
  ultimately show ?thesis
    by (simp add: resetView_def samples_def lit)
qed

section \<open>Examples\<close>

text \<open>
  The identity quaternion gives the report \<open>(0, 0, 0)\<close>. The half turn about the vertical
  axis has the yaw 180 degrees and the X axis 127, and after a re-centring on ten such
  samples the same sample gives the X axis 0. The quarter turn \<open>(1, 0, 0, 1)\<close>, which is
  not normalised, has the yaw 90 degrees and the X axis 63, the integer part of 63.5.
\<close>

lemma normalize_angle_in_range:
  assumes "- 180 \<le> r - c" "r - c \<le> 180"
  shows "normalize_angle (Fin r) (Fin c) = Some (Fin (r - c))"
  using assms by (simp add: normalize_angle_def fsub_Fin while_above_stop while_below_stop fgt_def flt_def)

lemma float_to_int8_int: "- 128 \<le> n \<Longrightarrow> n \<le> 127 \<Longrightarrow> float_to_int8 (Fin (of_int n)) = Some n"
  by (simp add: float_to_int8_def Let_def)

lemma sample_angles_identity:
  "sample_angles (Fin 1, Fin 0, Fin 0, Fin 0) = \<lparr>roll = Fin 0, pitch = Fin 0, yaw = Fin 0\<rparr>"
proof -
  have n: "normalize_quat (Fin 1, Fin 0, Fin 0, Fin 0) = (Fin 1, Fin 0, Fin 0, Fin 0)"
    by (rule normalize_quat_unit) simp_all
  show ?thesis
    unfolding sample_angles_def n
    by (simp add: quat_to_euler_def to_degrees_def Let_def lit fge_def fgt_def asinf_def)
qed

lemma sample_angles_half_turn:
  "sample_angles (Fin 0, Fin 0, Fin 0, Fin 1) = \<lparr>roll = Fin 0, pitch = Fin 0, yaw = Fin 180\<rparr>"
  by (simp add: sample_angles_def euler_half_turn to_degrees_def lit)

lemma loop_sample_identity:
  "loop_sample
     \<lparr>yaw_offset = Fin 0, pitch_offset = Fin 0, roll_offset = Fin 0, gamepad_report = rep\<rparr>
     (Some (RotationVector (Fin 1) (Fin 0) (Fin 0) (Fin 0))) True =
   Some (\<lparr>yaw_offset = Fin 0, pitch_offset = Fin 0, roll_offset = Fin 0,
          gamepad_report = \<lparr>report_x = Some 0, report_y = Some 0, report_z = Some 0, buttons = 0\<rparr>\<rparr>,
         Some \<lparr>report_x = Some 0, report_y = Some 0, report_z = Some 0, buttons = 0\<rparr>)"
  using float_to_int8_int [of 0]
  by (simp add: loop_sample_def sample_angles_identity normalize_angle_in_range joy_Fin Let_def)

lemma loop_sample_half_turn:
  "loop_sample
     \<lparr>yaw_offset = Fin 0, pitch_offset = Fin 0, roll_offset = Fin 0, gamepad_report = rep\<rparr>
     (Some (RotationVector (Fin 0) (Fin 0) (Fin 0) (Fin 1))) True =
   Some (\<lparr>yaw_offset = Fin 0, pitch_offset = Fin 0, roll_offset = Fin 0,
          gamepad_report = \<lparr>report_x = Some 127, report_y = Some 0, report_z = Some 0, buttons = 0\<rparr>\<rparr>,
         Some \<lparr>report_x = Some 127, report_y = Some 0, report_z = Some 0, buttons = 0\<rparr>)"
  using float_to_int8_int [of 0] float_to_int8_int [of 127]
  by (simp add: loop_sample_def sample_angles_half_turn normalize_angle_in_range joy_Fin Let_def)

lemma resetView_then_loop:
  "loop_sample
     (resetView (\<lambda>i. Some (RotationVector (Fin 0) (Fin 0) (Fin 0) (Fin 1)))
        \<lparr>yaw_offset = Fin 0, pitch_offset = Fin 0, roll_offset = Fin 0, gamepad_report = rep\<rparr>)
     (Some (RotationVector (Fin 0) (Fin 0) (Fin 0) (Fin 1))) True =
   Some (\<lparr>yaw_offset = Fin 180, pitch_offset = Fin 0, roll_offset = Fin 0,
          gamepad_report = \<lparr>report_x = Some 0, report_y = Some 0, report_z = Some 0, buttons = 0\<rparr>\<rparr>,
         Some \<lparr>report_x = Some 0, report_y = Some 0, report_z = Some 0, buttons = 0\<rparr>)"
proof -
  have "fold (\<lambda>i. accumulate (Some (RotationVector (Fin 0) (Fin 0) (Fin 0) (Fin 1))))
      [0..<samples] (Fin 0, Fin 0, Fin 0) = (Fin 1800, Fin 0, Fin 0)"
    by (simp add: samples_def upt_10 accumulate_half_turn)
  then have "resetView (\<lambda>i. Some (RotationVector (Fin 0) (Fin 0) (Fin 0) (Fin 1)))
        \<lparr>yaw_offset = Fin 0, pitch_offset = Fin 0, roll_offset = Fin 0, gamepad_report = rep\<rparr> =
      \<lparr>yaw_offset = Fin 180, pitch_offset = Fin 0, roll_offset = Fin 0, gamepad_report = rep\<rparr>"
    by (simp add: resetView_def samples_def lit)
  then show ?thesis
    using float_to_int8_int [of 0]
    by (simp add: loop_sample_def sample_angles_half_turn normalize_angle_in_range joy_Fin Let_def)
qed

lemma quat_norm_quarter_turn: "quat_norm (Fin 1, Fin 0, Fin 0, Fin 1) = Fin (sqrt 2)"
  by (simp add: quat_norm_cases)

lemma sample_angles_quarter_turn:
  "sample_angles (Fin 1, Fin 0, Fin 0, Fin 1) = \<lparr>roll = Fin 0, pitch = Fin 0, yaw = Fin 90\<rparr>"
proof -
  have h: "1 / sqrt 2 * (1 / sqrt 2) = (1 / 2 :: real)"
    by (simp add: field_simps)
  have n: "normalize_quat (Fin 1, Fin 0, Fin 0, Fin 1) =
      (Fin (1 / sqrt 2), Fin 0, Fin 0, Fin (1 / sqrt 2))"
    by (simp add: normalize_quat_def quat_norm_quarter_turn lit)
  have e: "quat_to_euler (Fin (1 / sqrt 2), Fin 0, Fin 0, Fin (1 / sqrt 2)) =
      \<lparr>roll = Fin 0, pitch = Fin 0, yaw = Fin (pi / 2)\<rparr>"
    by (simp add: quat_to_euler_def Let_def lit h fge_def fgt_def asinf_def atan2_def)
  show ?thesis
    unfolding sample_angles_def n e by (simp add: to_degrees_def lit)
qed

lemma loop_sample_quarter_turn:
  "loop_sample
     \<lparr>yaw_offset = Fin 0, pitch_offset = Fin 0, roll_offset = Fin 0, gamepad_report = rep\<rparr>
     (Some (RotationVector (Fin 1) (Fin 0) (Fin 0) (Fin 1))) True =
   Some (\<lparr>yaw_offset = Fin 0, pitch_offset = Fin 0, roll_offset = Fin 0,
          gamepad_report = \<lparr>report_x = Some 63, report_y = Some 0, report_z = Some 0, buttons = 0\<rparr>\<rparr>,
         Some \<lparr>report_x = Some 63, report_y = Some 0, report_z = Some 0, buttons = 0\<rparr>)"
proof -
  have x: "float_to_int8 (Fin (127 / 2)) = Some 63"
    by (simp add: float_to_int8_def Let_def)
  show ?thesis
    using float_to_int8_int [of 0] x
    by (simp add: loop_sample_def sample_angles_quarter_turn normalize_angle_in_range joy_Fin Let_def)
qed

end
